theory Spec2Isabelle
  imports Complex_Main
begin

section \<open>Values of the program\<close>

text \<open>
  The file \<^verbatim>\<open>train/models.py\<close> builds Keras computation graphs. Numbers are modelled as
  reals (the idealisation of the backend's floating point numbers), a batch as a list of
  rows. The arguments handed to the layer constructors are Python values: the builders
  pass integers and activation names, the tuning function passes whatever the
  configuration dictionary holds.
\<close>

type_synonym matrix = "real list list"

datatype pyval = PyInt int | PyStr string

datatype error = NameError string | KeyError string

text \<open>
  A symbolic tensor of the graph. \<open>Input i shape\<close> is the \<open>i\<close>-th placeholder created by
  \<^verbatim>\<open>Input(shape=(shape,))\<close>; \<open>Dense l units activation t\<close> is the \<open>l\<close>-th layer created by
  \<^verbatim>\<open>layers.Dense(units, activation=activation)\<close>, applied to \<open>t\<close> (every call of the
  constructor makes a layer with parameters of its own, so layers are numbered in the
  order the function creates them); \<open>Lambda_sample output_shape mu log_sigma\<close> is
  \<^verbatim>\<open>layers.Lambda(sample, output_shape=(output_shape,))([mu, log_sigma])\<close>.
\<close>

datatype tensor =
    Input nat pyval
  | Dense nat pyval pyval tensor
  | Lambda_sample pyval tensor tensor

text \<open>
  What the numerical backend supplies: the parameters of each layer, the activations the
  source does not name, the random source behind \<^verbatim>\<open>K.random_normal(shape, mean, stddev)\<close>
  and the values fed to the placeholders.
\<close>

record backend =
  kernel :: "nat \<Rightarrow> nat \<Rightarrow> nat \<Rightarrow> real"
  bias :: "nat \<Rightarrow> nat \<Rightarrow> real"
  other_activation :: "pyval \<Rightarrow> real list \<Rightarrow> real list"
  random_normal :: "nat \<times> nat \<Rightarrow> real \<Rightarrow> real \<Rightarrow> matrix"
  feed :: "tensor \<Rightarrow> matrix"

section \<open>Backend operations on values\<close>

definition relu :: "real \<Rightarrow> real" where
  "relu v = max v 0"

definition sigmoid :: "real \<Rightarrow> real" where
  "sigmoid v = 1 / (1 + exp (- v))"

definition activation :: "(pyval \<Rightarrow> real list \<Rightarrow> real list) \<Rightarrow> pyval \<Rightarrow> real list \<Rightarrow> real list" where
  "activation other a row =
     (if a = PyStr ''relu'' then map relu row
      else if a = PyStr ''sigmoid'' then map sigmoid row
      else if a = PyStr ''linear'' then row
      else other a row)"

text \<open>
  The width a layer argument stands for. The backend rejects a width that is not a
  non-negative integer; such a layer has width 0 here, and nothing below is about it.
\<close>

fun units_of :: "pyval \<Rightarrow> nat" where
  "units_of (PyInt n) = nat n"
| "units_of (PyStr s) = 0"

definition dense :: "(nat \<Rightarrow> nat \<Rightarrow> real) \<Rightarrow> (nat \<Rightarrow> real) \<Rightarrow> (real list \<Rightarrow> real list) \<Rightarrow> nat \<Rightarrow> matrix \<Rightarrow> matrix" where
  "dense W b act units x =
     map (\<lambda>row. act (map (\<lambda>j. (\<Sum>i<length row. row ! i * W i j) + b j) [0..<units])) x"

text \<open>
  The elementwise operations of the backend, on operands of one shape (the graphs of this
  file produce no others; where the backend would reject or broadcast operands of
  different shapes, the lists are cut to the shorter one, and the theorems below state
  the shapes they need). A mean over no element, which the backend gives as not-a-number,
  is \<open>0 / 0 = 0\<close> here.
\<close>

definition t_add :: "matrix \<Rightarrow> matrix \<Rightarrow> matrix" where
  "t_add a b = map2 (map2 (+)) a b"

definition t_sub :: "matrix \<Rightarrow> matrix \<Rightarrow> matrix" where
  "t_sub a b = map2 (map2 (-)) a b"

definition t_mul :: "matrix \<Rightarrow> matrix \<Rightarrow> matrix" where
  "t_mul a b = map2 (map2 times) a b"

definition t_sub_scalar :: "matrix \<Rightarrow> real \<Rightarrow> matrix" where
  "t_sub_scalar a c = map (map (\<lambda>v. v - c)) a"

definition t_mul_scalar :: "matrix \<Rightarrow> real \<Rightarrow> matrix" where
  "t_mul_scalar a c = map (map (\<lambda>v. v * c)) a"

definition K_exp :: "matrix \<Rightarrow> matrix" where
  "K_exp a = map (map exp) a"

definition K_square :: "matrix \<Rightarrow> matrix" where
  "K_square a = map (map (\<lambda>v. v * v)) a"

definition K_abs :: "matrix \<Rightarrow> matrix" where
  "K_abs a = map (map abs) a"

definition K_sum_axis1 :: "matrix \<Rightarrow> real list" where
  "K_sum_axis1 a = map sum_list a"

definition K_mean_last :: "matrix \<Rightarrow> real list" where
  "K_mean_last a = map (\<lambda>row. sum_list row / real (length row)) a"

definition K_mean :: "real list \<Rightarrow> real" where
  "K_mean v = sum_list v / real (length v)"

definition v_add :: "real list \<Rightarrow> real list \<Rightarrow> real list" where
  "v_add a b = map2 (+) a b"

definition v_scale :: "real \<Rightarrow> real list \<Rightarrow> real list" where
  "v_scale c v = map (\<lambda>k. c * k) v"

definition mean_absolute_error :: "matrix \<Rightarrow> matrix \<Rightarrow> real list" where
  "mean_absolute_error y_true y_pred = K_mean_last (K_abs (t_sub y_pred y_true))"

section \<open>The sampler\<close>

text \<open>
  Inside the sampling layer a tensor has a static shape, read by \<^verbatim>\<open>K.int_shape\<close>, and a
  runtime value, whose number of rows \<^verbatim>\<open>K.shape\<close> reads.
\<close>

record ktensor =
  static_dim :: nat
  tvalue :: matrix

definition sample :: "(nat \<times> nat \<Rightarrow> real \<Rightarrow> real \<Rightarrow> matrix) \<Rightarrow> ktensor \<times> ktensor \<Rightarrow> matrix" where
  "sample K_random_normal args =
     (let (mu, log_sigma) = args;
          batch = length (tvalue mu);
          dim = static_dim mu;
          epsilon = K_random_normal (batch, dim) 0 1
      in t_add (tvalue mu) (t_mul (K_exp (t_mul_scalar (tvalue log_sigma) 0.5)) epsilon))"

section \<open>Evaluating a graph\<close>

fun int_shape :: "tensor \<Rightarrow> nat" where
  "int_shape (Input i shape) = units_of shape"
| "int_shape (Dense l units a t) = units_of units"
| "int_shape (Lambda_sample output_shape mu log_sigma) = units_of output_shape"

fun eval :: "backend \<Rightarrow> tensor \<Rightarrow> matrix" where
  "eval bk (Input i shape) = feed bk (Input i shape)"
| "eval bk (Dense l units a t) =
     dense (kernel bk l) (bias bk l) (activation (other_activation bk) a) (units_of units) (eval bk t)"
| "eval bk (Lambda_sample output_shape mu log_sigma) =
     sample (random_normal bk)
       (\<lparr>static_dim = int_shape mu, tvalue = eval bk mu\<rparr>,
        \<lparr>static_dim = int_shape log_sigma, tvalue = eval bk log_sigma\<rparr>)"

fun layer_ids :: "tensor \<Rightarrow> nat list" where
  "layer_ids (Input i shape) = []"
| "layer_ids (Dense l units a t) = l # layer_ids t"
| "layer_ids (Lambda_sample output_shape mu log_sigma) = layer_ids mu @ layer_ids log_sigma"

section \<open>Models\<close>

datatype loss_value = PerSample "real list" | Scalar real

datatype optimizer = Adam real

datatype loss = LossName string | LossFn "backend \<Rightarrow> matrix \<Rightarrow> matrix \<Rightarrow> loss_value"

record 'o model =
  m_inputs :: tensor
  m_outputs :: 'o
  m_name :: string
  m_compiled :: "(optimizer \<times> loss) option"

definition Model :: "tensor \<Rightarrow> 'o \<Rightarrow> string \<Rightarrow> 'o model" where
  "Model inputs outputs name =
     \<lparr>m_inputs = inputs, m_outputs = outputs, m_name = name, m_compiled = None\<rparr>"

text \<open>
  Calling a model on a tensor rebuilds the model's graph on that tensor: the same layers,
  hence the same parameters, with the model's placeholder replaced.
\<close>

fun subst :: "tensor \<Rightarrow> tensor \<Rightarrow> tensor \<Rightarrow> tensor" where
  "subst p t (Input i shape) = (if Input i shape = p then t else Input i shape)"
| "subst p t (Dense l units a x) = Dense l units a (subst p t x)"
| "subst p t (Lambda_sample output_shape mu log_sigma) =
     Lambda_sample output_shape (subst p t mu) (subst p t log_sigma)"

definition call :: "tensor model \<Rightarrow> tensor \<Rightarrow> tensor" where
  "call m t = subst (m_inputs m) t (m_outputs m)"

definition call_multi :: "tensor list model \<Rightarrow> tensor \<Rightarrow> tensor list" where
  "call_multi m t = map (subst (m_inputs m) t) (m_outputs m)"

definition predict :: "backend \<Rightarrow> tensor model \<Rightarrow> matrix \<Rightarrow> matrix" where
  "predict bk m x = eval (bk\<lparr>feed := (feed bk)(m_inputs m := x)\<rparr>) (m_outputs m)"

definition predict_multi :: "backend \<Rightarrow> tensor list model \<Rightarrow> matrix \<Rightarrow> matrix list" where
  "predict_multi bk m x = map (eval (bk\<lparr>feed := (feed bk)(m_inputs m := x)\<rparr>)) (m_outputs m)"

text \<open>
  \<^verbatim>\<open>name.compile(optimizer=..., loss=...)\<close>: the name is looked up among the model-valued
  local names of the calling function (no module-level name of the file is bound to a
  model); an unbound name raises \<^verbatim>\<open>NameError\<close>.
\<close>

definition lookup_name :: "(string \<times> 'a) list \<Rightarrow> string \<Rightarrow> error + 'a" where
  "lookup_name scope name =
     (case map_of scope name of None \<Rightarrow> Inl (NameError name) | Some v \<Rightarrow> Inr v)"

definition compile :: "'o model \<Rightarrow> optimizer \<Rightarrow> loss \<Rightarrow> 'o model" where
  "compile m opt l = m\<lparr>m_compiled := Some (opt, l)\<rparr>"

section \<open>The vanilla builders\<close>

text \<open>Lines 22 to 33 of \<^verbatim>\<open>build_simple_autoencoder\<close>: the three models before compilation.\<close>

definition simple_autoencoder_models :: "int \<Rightarrow> int \<Rightarrow> tensor model \<times> tensor model \<times> tensor model" where
  "simple_autoencoder_models latent_dim input_shape =
     (let inputs = Input 0 (PyInt input_shape);
          z = Dense 0 (PyInt latent_dim) (PyStr ''relu'') inputs;
          latent_inputs = Input 1 (PyInt latent_dim);
          outputs = Dense 1 (PyInt input_shape) (PyStr ''sigmoid'') latent_inputs;
          encoder = Model inputs z ''encoder'';
          decoder = Model latent_inputs outputs ''decoder'';
          outputs = call decoder (call encoder inputs);
          autoencoder = Model inputs outputs ''autoencoder''
      in (autoencoder, encoder, decoder))"

definition build_simple_autoencoder :: "int \<Rightarrow> int \<Rightarrow> error + tensor model \<times> tensor model \<times> tensor model" where
  "build_simple_autoencoder latent_dim input_shape =
     (let (autoencoder, encoder, decoder) = simple_autoencoder_models latent_dim input_shape
      in case lookup_name [(''encoder'', encoder), (''decoder'', decoder),
                           (''autoencoder'', autoencoder)] ''autoencoder'' of
           Inl e \<Rightarrow> Inl e
         | Inr m \<Rightarrow>
             (let autoencoder = compile m (Adam 0.001) (LossName ''mean_absolute_error'')
              in Inr (autoencoder, encoder, decoder)))"

text \<open>Lines 57 to 70 of \<^verbatim>\<open>build_single_layer_autoencoder\<close>.\<close>

definition single_layer_autoencoder_models :: "int \<Rightarrow> int \<Rightarrow> tensor model \<times> tensor model \<times> tensor model" where
  "single_layer_autoencoder_models latent_dim input_shape =
     (let inputs = Input 0 (PyInt input_shape);
          x = Dense 0 (PyInt 256) (PyStr ''relu'') inputs;
          z = Dense 1 (PyInt latent_dim) (PyStr ''relu'') x;
          latent_inputs = Input 1 (PyInt latent_dim);
          x = Dense 2 (PyInt 256) (PyStr ''relu'') latent_inputs;
          outputs = Dense 3 (PyInt input_shape) (PyStr ''sigmoid'') latent_inputs;
          encoder = Model inputs z ''encoder'';
          decoder = Model latent_inputs outputs ''decoder'';
          outputs = call decoder (call encoder inputs);
          autoencoder = Model inputs outputs ''autoencoder''
      in (autoencoder, encoder, decoder))"

definition build_single_layer_autoencoder :: "int \<Rightarrow> int \<Rightarrow> error + tensor model \<times> tensor model \<times> tensor model" where
  "build_single_layer_autoencoder latent_dim input_shape =
     (let (autoencoder, encoder, decoder) = single_layer_autoencoder_models latent_dim input_shape
      in case lookup_name [(''encoder'', encoder), (''decoder'', decoder),
                           (''autoencoder'', autoencoder)] ''autoencoder'' of
           Inl e \<Rightarrow> Inl e
         | Inr m \<Rightarrow>
             (let autoencoder = compile m (Adam 0.001) (LossName ''mean_absolute_error'')
              in Inr (autoencoder, encoder, decoder)))"

text \<open>
  Lines 91 to 110 of \<^verbatim>\<open>build_multiple_layer_autoencoder\<close>. Line 112 then compiles the
  name \<^verbatim>\<open>model\<close>, which the function never binds.
\<close>

definition multiple_layer_autoencoder_models :: "int \<Rightarrow> int \<Rightarrow> tensor model \<times> tensor model \<times> tensor model" where
  "multiple_layer_autoencoder_models latent_dim input_shape =
     (let inputs = Input 0 (PyInt input_shape);
          x = Dense 0 (PyInt 13) (PyStr ''relu'') inputs;
          x = Dense 1 (PyInt 9) (PyStr ''relu'') x;
          x = Dense 2 (PyInt 6) (PyStr ''relu'') x;
          x = Dense 3 (PyInt 2) (PyStr ''relu'') x;
          z = Dense 4 (PyInt latent_dim) (PyStr ''relu'') x;
          latent_inputs = Input 1 (PyInt latent_dim);
          x = Dense 5 (PyInt 2) (PyStr ''relu'') latent_inputs;
          x = Dense 6 (PyInt 6) (PyStr ''relu'') x;
          x = Dense 7 (PyInt 9) (PyStr ''relu'') x;
          x = Dense 8 (PyInt 13) (PyStr ''relu'') x;
          outputs = Dense 9 (PyInt input_shape) (PyStr ''sigmoid'') x;
          encoder = Model inputs z ''encoder'';
          decoder = Model latent_inputs outputs ''decoder'';
          outputs = call decoder (call encoder inputs);
          autoencoder = Model inputs outputs ''autoencoder''
      in (autoencoder, encoder, decoder))"

definition build_multiple_layer_autoencoder :: "int \<Rightarrow> int \<Rightarrow> error + tensor model \<times> tensor model \<times> tensor model" where
  "build_multiple_layer_autoencoder latent_dim input_shape =
     (let (autoencoder, encoder, decoder) = multiple_layer_autoencoder_models latent_dim input_shape
      in case lookup_name [(''encoder'', encoder), (''decoder'', decoder),
                           (''autoencoder'', autoencoder)] ''model'' of
           Inl e \<Rightarrow> Inl e
         | Inr m \<Rightarrow>
             (let model = compile m (Adam 0.001) (LossName ''mean_absolute_error'')
              in Inr (autoencoder, encoder, decoder)))"

section \<open>The variational loss and builders\<close>

text \<open>
  The function \<^verbatim>\<open>vae_loss\<close> nested in both variational builders (lines 157 to 160 and 211
  to 214, the same text). Its free variables \<^verbatim>\<open>beta\<close>, \<^verbatim>\<open>inputs\<close>, \<^verbatim>\<open>outputs\<close>, \<^verbatim>\<open>mu\<close>
  and \<^verbatim>\<open>log_sigma\<close> are those of the enclosing builder and become parameters; the
  symbolic tensors are evaluated by the backend on the batch it is training on.
\<close>

definition vae_loss :: "real \<Rightarrow> tensor \<Rightarrow> tensor \<Rightarrow> tensor \<Rightarrow> tensor \<Rightarrow> backend \<Rightarrow> matrix \<Rightarrow> matrix \<Rightarrow> loss_value" where
  "vae_loss beta inputs outputs mu log_sigma bk y_true y_pred =
     (let reconstruciton_loss = mean_absolute_error (eval bk inputs) (eval bk outputs);
          kl_loss = v_scale 0.5 (K_sum_axis1
            (t_sub (t_sub_scalar (t_add (K_exp (eval bk log_sigma)) (K_square (eval bk mu))) 1)
               (eval bk log_sigma)))
      in PerSample (v_add reconstruciton_loss (v_scale beta kl_loss)))"

text \<open>
  The builders also print the summaries of their models (\<^verbatim>\<open>summary()\<close>), which changes
  nothing in what they return and is left out.
\<close>

definition build_single_layer_variational_autoencoder :: "int \<Rightarrow> int \<Rightarrow> real \<Rightarrow> error + tensor model \<times> tensor list model \<times> tensor model" where
  "build_single_layer_variational_autoencoder latent_dim input_shape beta =
     (let inputs = Input 0 (PyInt input_shape);
          x = Dense 0 (PyInt 1024) (PyStr ''relu'') inputs;
          mu = Dense 1 (PyInt latent_dim) (PyStr ''linear'') x;
          log_sigma = Dense 2 (PyInt latent_dim) (PyStr ''linear'') x;
          z = Lambda_sample (PyInt latent_dim) mu log_sigma;
          latent_inputs = Input 1 (PyInt latent_dim);
          x = Dense 3 (PyInt 1024) (PyStr ''relu'') latent_inputs;
          outputs = Dense 4 (PyInt input_shape) (PyStr ''sigmoid'') x;
          encoder = Model inputs [mu, log_sigma, z] ''encoder'';
          decoder = Model latent_inputs outputs ''decoder'';
          outputs = call decoder (call_multi encoder inputs ! 2);
          autoencoder = Model inputs outputs ''autoencoder''
      in case lookup_name [(''decoder'', decoder), (''autoencoder'', autoencoder)] ''autoencoder'' of
           Inl e \<Rightarrow> Inl e
         | Inr m \<Rightarrow>
             (let autoencoder = compile m (Adam 0.001)
                    (LossFn (vae_loss beta inputs outputs mu log_sigma))
              in Inr (autoencoder, encoder, decoder)))"

definition build_multiple_layer_variational_autoencoder :: "int \<Rightarrow> int \<Rightarrow> real \<Rightarrow> error + tensor model \<times> tensor list model \<times> tensor model" where
  "build_multiple_layer_variational_autoencoder latent_dim input_shape beta =
     (let inputs = Input 0 (PyInt input_shape);
          x = Dense 0 (PyInt 128) (PyStr ''relu'') inputs;
          x = Dense 1 (PyInt 64) (PyStr ''relu'') x;
          x = Dense 2 (PyInt 32) (PyStr ''relu'') x;
          mu = Dense 3 (PyInt latent_dim) (PyStr ''linear'') x;
          log_sigma = Dense 4 (PyInt latent_dim) (PyStr ''linear'') x;
          z = Lambda_sample (PyInt latent_dim) mu log_sigma;
          latent_inputs = Input 1 (PyInt latent_dim);
          x = Dense 5 (PyInt 32) (PyStr ''relu'') latent_inputs;
          x = Dense 6 (PyInt 64) (PyStr ''relu'') x;
          x = Dense 7 (PyInt 128) (PyStr ''relu'') x;
          outputs = Dense 8 (PyInt input_shape) (PyStr ''sigmoid'') x;
          encoder = Model inputs [mu, log_sigma, z] ''encoder'';
          decoder = Model latent_inputs outputs ''decoder'';
          outputs = call decoder (call_multi encoder inputs ! 2);
          autoencoder = Model inputs outputs ''autoencoder''
      in case lookup_name [(''decoder'', decoder), (''autoencoder'', autoencoder)] ''autoencoder'' of
           Inl e \<Rightarrow> Inl e
         | Inr m \<Rightarrow>
             (let autoencoder = compile m (Adam 0.001)
                    (LossFn (vae_loss beta inputs outputs mu log_sigma))
              in Inr (autoencoder, encoder, decoder)))"

section \<open>The tuning function\<close>

text \<open>
  The keyword arguments of \<^verbatim>\<open>autoencoder.fit\<close>. The training loop itself belongs to the
  backend and is a parameter \<open>fit\<close> of the tuning function: it takes the compiled model
  and these arguments and gives the history and the trained model.
\<close>

record fit_args =
  fit_x :: matrix
  fit_y :: matrix
  shuffle :: bool
  validation_data :: "matrix \<times> matrix"
  batch_size :: nat
  epochs :: pyval
  verbose :: bool

definition getitem :: "(string \<rightharpoonup> pyval) \<Rightarrow> string \<Rightarrow> error + pyval" where
  "getitem params key = (case params key of None \<Rightarrow> Inl (KeyError key) | Some v \<Rightarrow> Inr v)"

definition bind_err :: "error + 'a \<Rightarrow> ('a \<Rightarrow> error + 'b) \<Rightarrow> error + 'b" where
  "bind_err r f = (case r of Inl e \<Rightarrow> Inl e | Inr v \<Rightarrow> f v)"

text \<open>The function \<^verbatim>\<open>vae_loss\<close> nested in the tuning function (lines 264 to 268).\<close>

definition tune_vae_loss :: "real \<Rightarrow> tensor \<Rightarrow> tensor \<Rightarrow> tensor \<Rightarrow> tensor \<Rightarrow> backend \<Rightarrow> matrix \<Rightarrow> matrix \<Rightarrow> loss_value" where
  "tune_vae_loss beta inputs outputs mu log_sigma bk y_true y_pred =
     (let recon = mean_absolute_error (eval bk inputs) (eval bk outputs);
          kl_loss = v_scale (beta * 0.5) (K_sum_axis1
            (t_sub (t_sub_scalar (t_add (K_exp (eval bk log_sigma)) (K_square (eval bk mu))) 1)
               (eval bk log_sigma)))
      in Scalar (K_mean (v_add recon kl_loss)))"

definition tune_single_layer_variational_autoencoder :: "(tensor model \<Rightarrow> fit_args \<Rightarrow> 'h \<times> 'a) \<Rightarrow> matrix \<Rightarrow> matrix \<Rightarrow> matrix \<Rightarrow> matrix \<Rightarrow> (string \<rightharpoonup> pyval) \<Rightarrow> error + 'h \<times> 'a" where
  "tune_single_layer_variational_autoencoder fit x_train y_train x_val y_val params =
     (let latent_dim = 2;
          input_shape = 13;
          beta = 0.001;
          inputs = Input 0 (PyInt input_shape)
      in bind_err (getitem params ''encoder_units'') (\<lambda>encoder_units.
         bind_err (getitem params ''activation'') (\<lambda>activation1.
         let x = Dense 0 encoder_units activation1 inputs;
             mu = Dense 1 (PyInt latent_dim) (PyStr ''linear'') x;
             log_sigma = Dense 2 (PyInt latent_dim) (PyStr ''linear'') x;
             z = Lambda_sample (PyInt latent_dim) mu log_sigma;
             latent_inputs = Input 1 (PyInt latent_dim)
         in bind_err (getitem params ''decoder_units'') (\<lambda>decoder_units.
            bind_err (getitem params ''activation'') (\<lambda>activation2.
            let x = Dense 3 decoder_units activation2 latent_inputs;
                outputs = Dense 4 (PyInt input_shape) (PyStr ''sigmoid'') x;
                encoder = Model inputs [mu, log_sigma, z] ''encoder'';
                decoder = Model latent_inputs outputs ''decoder'';
                outputs = call decoder (call_multi encoder inputs ! 2);
                autoencoder = Model inputs outputs ''autoencoder''
            in bind_err (lookup_name [(''decoder'', decoder), (''autoencoder'', autoencoder)]
                           ''autoencoder'') (\<lambda>m.
               let autoencoder = compile m (Adam 0.001)
                     (LossFn (tune_vae_loss beta inputs outputs mu log_sigma))
               in bind_err (getitem params ''epochs'') (\<lambda>epochs1.
                  let (history, autoencoder) = fit autoencoder
                        \<lparr>fit_x = x_train, fit_y = x_train, shuffle = True,
                         validation_data = (x_val, x_val), batch_size = 8,
                         epochs = epochs1, verbose = False\<rparr>
                  in Inr (history, autoencoder))))))))"

section \<open>Reading a compiled loss, and the loss as the spec words it\<close>

text \<open>The value of the loss function a model was compiled with, when it is a function.\<close>

definition compiled_loss :: "'o model \<Rightarrow> backend \<Rightarrow> matrix \<Rightarrow> matrix \<Rightarrow> loss_value option" where
  "compiled_loss m bk y_true y_pred =
     (case m_compiled m of Some (opt, LossFn f) \<Rightarrow> Some (f bk y_true y_pred) | _ \<Rightarrow> None)"

text \<open>
  The loss of one row as the specification states it: the mean absolute error between the
  input row and its reconstruction, plus \<open>beta\<close> times the KL term
  \<open>0.5 * sum over the latent dimensions of exp(log_variance) + mean^2 - 1 - log_variance\<close>.
\<close>

definition spec_row_loss :: "real \<Rightarrow> real list \<Rightarrow> real list \<Rightarrow> real list \<Rightarrow> real list \<Rightarrow> real" where
  "spec_row_loss beta input reconstruction mean log_variance =
     (\<Sum>j<length input. \<bar>reconstruction ! j - input ! j\<bar>) / real (length input)
     + beta * (0.5 * (\<Sum>j<length mean. exp (log_variance ! j) + (mean ! j)\<^sup>2 - 1 - log_variance ! j))"

text \<open>One summand of the KL term, named for the proofs.\<close>

definition kl_elem :: "real \<Rightarrow> real \<Rightarrow> real" where
  "kl_elem m l = exp l + m * m - 1 - l"

section \<open>Concrete inputs\<close>

text \<open>
  The configuration of the spec's tuning scenario; the configuration under which the
  tuning function builds the network of the single-layer variational builder; small
  tensors for the sampler; a backend whose parameters and noise are all zero, fed a
  batch of two rows; the same backend fed one row; and the same backend with bias 1 in
  layer 1, the layer of the mean.
\<close>

definition batch0 :: matrix where
  "batch0 = [replicate 13 (1/2), replicate 13 (3/2)]"

definition bk0 :: backend where
  "bk0 = \<lparr>kernel = (\<lambda>l i j. 0), bias = (\<lambda>l j. 0), other_activation = (\<lambda>a row. row),
          random_normal = (\<lambda>shape m s. replicate (fst shape) (replicate (snd shape) 0)),
          feed = (\<lambda>t. batch0)\<rparr>"


definition bk_mean1 :: backend where
  "bk_mean1 = bk0\<lparr>bias := (\<lambda>l j. if l = 1 then 1 else 0)\<rparr>"


definition config0 :: "string \<rightharpoonup> pyval" where
  "config0 = [''encoder_units'' \<mapsto> PyInt 8, ''decoder_units'' \<mapsto> PyInt 8,
              ''activation'' \<mapsto> PyStr ''relu'', ''epochs'' \<mapsto> PyInt 2]"

definition fit0 :: "tensor model \<Rightarrow> fit_args \<Rightarrow> pyval \<times> nat \<times> tensor" where
  "fit0 m a = (epochs a, batch_size a, m_inputs m)"

definition mu0 :: ktensor where
  "mu0 = \<lparr>static_dim = 1, tvalue = [[1]]\<rparr>"

definition log_sigma0 :: ktensor where
  "log_sigma0 = \<lparr>static_dim = 1, tvalue = [[0]]\<rparr>"

definition noise0 :: "nat \<times> nat \<Rightarrow> real \<Rightarrow> real \<Rightarrow> matrix" where
  "noise0 shape m s = replicate (fst shape) (replicate (snd shape) 2)"

section \<open>What the builders return\<close>

lemma build_simple_result:
  "build_simple_autoencoder ld iw =
     (case simple_autoencoder_models ld iw of (ae, enc, dec) \<Rightarrow>
        Inr (compile ae (Adam 0.001) (LossName ''mean_absolute_error''), enc, dec))"
  by (simp add: build_simple_autoencoder_def lookup_name_def Let_def split: prod.splits)

lemma build_single_result:
  "build_single_layer_autoencoder ld iw =
     (case single_layer_autoencoder_models ld iw of (ae, enc, dec) \<Rightarrow>
        Inr (compile ae (Adam 0.001) (LossName ''mean_absolute_error''), enc, dec))"
  by (simp add: build_single_layer_autoencoder_def lookup_name_def Let_def split: prod.splits)

text \<open>
  C1. The claim says that the decoder of \<^verbatim>\<open>build_single_layer_autoencoder\<close> applies a hidden
  layer of width 256 and then the sigmoid layer, so that its output depends on the hidden
  layer. The code creates the hidden layer (layer 2) but applies the sigmoid layer
  (layer 3) to the latent placeholder itself: the decoder's graph holds layer 3 only, and
  no change of the parameters of layer 2 changes what the decoder computes.
\<close>

theorem single_layer_decoder_skips_hidden_layer:
  "case build_single_layer_autoencoder 2 13 of
     Inl e \<Rightarrow> False
   | Inr (autoencoder, encoder, decoder) \<Rightarrow>
       m_outputs decoder = Dense 3 (PyInt 13) (PyStr ''sigmoid'') (Input 1 (PyInt 2)) \<and>
       layer_ids (m_outputs decoder) = [3] \<and>
       (\<forall>bk W b x. predict (bk\<lparr>kernel := (kernel bk)(2 := W), bias := (bias bk)(2 := b)\<rparr>) decoder x
                    = predict bk decoder x)"
  by (simp add: build_single_result single_layer_autoencoder_models_def Let_def Model_def
      predict_def)

text \<open>
  C2. The claim says that every builder, \<^verbatim>\<open>build_multiple_layer_autoencoder\<close> included, runs
  to completion and returns its three models. The code of that builder compiles the name
  \<^verbatim>\<open>model\<close>, which it never binds: for every latent dimension and input width the call
  ends in a \<^verbatim>\<open>NameError\<close> and returns nothing.
\<close>

theorem build_multiple_layer_autoencoder_raises:
  "build_multiple_layer_autoencoder latent_dim input_shape = Inl (NameError ''model'')"
  by (simp add: build_multiple_layer_autoencoder_def multiple_layer_autoencoder_models_def
      lookup_name_def Let_def)

section \<open>The sampler\<close>

text \<open>
  C4. For a mean and a log variance of shape \<open>(B, D)\<close> the sampler asks the random source
  for standard normal noise (mean 0, standard deviation 1) of shape \<open>(B, D)\<close>, one draw for
  every row and dimension, and returns \<open>mean + exp (0.5 * log_variance) * epsilon\<close>
  elementwise, of shape \<open>(B, D)\<close>; \<open>B\<close> and \<open>D\<close> are read from the shape of the mean (the
  number of rows of its value, and its static width, which is the width of its rows).
  The random source is the backend's: that it gives a matrix of the shape it is asked for
  is a hypothesis.
\<close>

theorem sample_reparameterization:
  assumes "length (tvalue mu) = B" and "list_all (\<lambda>r. length r = D) (tvalue mu)"
    and "static_dim mu = D"
    and "length (tvalue log_sigma) = B" and "list_all (\<lambda>r. length r = D) (tvalue log_sigma)"
    and "length (K_random_normal (B, D) 0 1) = B"
    and "list_all (\<lambda>r. length r = D) (K_random_normal (B, D) 0 1)"
  shows "length (sample K_random_normal (mu, log_sigma)) = B \<and>
         (\<forall>r<B. length (sample K_random_normal (mu, log_sigma) ! r) = D \<and>
            (\<forall>j<D. sample K_random_normal (mu, log_sigma) ! r ! j =
               tvalue mu ! r ! j
                 + exp (0.5 * tvalue log_sigma ! r ! j) * K_random_normal (B, D) 0 1 ! r ! j))"
  using assms
  by (auto simp add: sample_def Let_def t_add_def t_mul_def K_exp_def t_mul_scalar_def
      list_all_length mult.commute)

theorem sample_reparameterization_witness:
  "length (sample noise0 (mu0, log_sigma0)) = 1 \<and> sample noise0 (mu0, log_sigma0) ! 0 ! 0 = 3"
proof -
  have h1: "length (tvalue mu0) = 1" and h2: "list_all (\<lambda>r. length r = 1) (tvalue mu0)"
    and h3: "static_dim mu0 = 1"
    by (simp_all add: mu0_def)
  have h4: "length (tvalue log_sigma0) = 1"
    and h5: "list_all (\<lambda>r. length r = 1) (tvalue log_sigma0)"
    by (simp_all add: log_sigma0_def)
  have h6: "length (noise0 (1, 1) 0 1) = 1"
    and h7: "list_all (\<lambda>r. length r = 1) (noise0 (1, 1) 0 1)"
    by (simp_all add: noise0_def)
  from sample_reparameterization
    [where mu = mu0 and B = 1 and D = 1 and log_sigma = log_sigma0
       and K_random_normal = noise0, OF h1 h2 h3 h4 h5 h6 h7]
  show ?thesis
    by (simp add: mu0_def log_sigma0_def noise0_def)
qed

section \<open>The vanilla models\<close>

text \<open>
  C6. For each vanilla variant the composed autoencoder applied to a batch gives what the
  decoder gives on the encoder's output, for every batch and every choice of the
  parameters: the autoencoder is the decoder's graph rebuilt on the encoder's graph, with
  the same layers. For the multi-layer variant these are the models of lines 105 to 110,
  which the function builds before its compile step.
\<close>

theorem autoencoder_is_decoder_after_encoder:
  "(case build_simple_autoencoder latent_dim input_shape of
      Inl e \<Rightarrow> False
    | Inr (autoencoder, encoder, decoder) \<Rightarrow>
        predict bk autoencoder x = predict bk decoder (predict bk encoder x)) \<and>
   (case build_single_layer_autoencoder latent_dim input_shape of
      Inl e \<Rightarrow> False
    | Inr (autoencoder, encoder, decoder) \<Rightarrow>
        predict bk autoencoder x = predict bk decoder (predict bk encoder x)) \<and>
   (case multiple_layer_autoencoder_models latent_dim input_shape of
      (autoencoder, encoder, decoder) \<Rightarrow>
        predict bk autoencoder x = predict bk decoder (predict bk encoder x))"
proof (intro conjI)
  show "case build_simple_autoencoder latent_dim input_shape of
      Inl e \<Rightarrow> False
    | Inr (autoencoder, encoder, decoder) \<Rightarrow>
        predict bk autoencoder x = predict bk decoder (predict bk encoder x)"
    by (simp add: build_simple_result simple_autoencoder_models_def Let_def Model_def
        predict_def call_def compile_def)
  show "case build_single_layer_autoencoder latent_dim input_shape of
      Inl e \<Rightarrow> False
    | Inr (autoencoder, encoder, decoder) \<Rightarrow>
        predict bk autoencoder x = predict bk decoder (predict bk encoder x)"
    by (simp add: build_single_result single_layer_autoencoder_models_def Let_def Model_def
        predict_def call_def compile_def)
  show "case multiple_layer_autoencoder_models latent_dim input_shape of
      (autoencoder, encoder, decoder) \<Rightarrow>
        predict bk autoencoder x = predict bk decoder (predict bk encoder x)"
    by (simp add: multiple_layer_autoencoder_models_def Let_def Model_def predict_def
        call_def)
qed

lemma length_dense [simp]: "length (dense W b act u x) = length x"
  by (simp add: dense_def)

lemma relu_nonneg: "0 \<le> relu v"
  by (simp add: relu_def)

lemma dense_relu_rows:
  "list_all (\<lambda>row. length row = u \<and> list_all (\<lambda>v. 0 \<le> v) row)
     (dense W b (activation other (PyStr ''relu'')) u x)"
  by (simp add: dense_def activation_def list_all_iff relu_nonneg)

text \<open>
  C7. For each vanilla encoder (simple, single hidden layer, multi-layer) and every batch,
  the latent code has one row for each row of the batch, of latent width, and every
  component of it is non-negative: the last layer of the encoder is rectified-linear.
\<close>

theorem vanilla_latent_nonnegative:
  "(case build_simple_autoencoder latent_dim input_shape of
      Inl e \<Rightarrow> False
    | Inr (autoencoder, encoder, decoder) \<Rightarrow>
        length (predict bk encoder x) = length x \<and>
        list_all (\<lambda>row. length row = nat latent_dim \<and> list_all (\<lambda>v. 0 \<le> v) row)
          (predict bk encoder x)) \<and>
   (case build_single_layer_autoencoder latent_dim input_shape of
      Inl e \<Rightarrow> False
    | Inr (autoencoder, encoder, decoder) \<Rightarrow>
        length (predict bk encoder x) = length x \<and>
        list_all (\<lambda>row. length row = nat latent_dim \<and> list_all (\<lambda>v. 0 \<le> v) row)
          (predict bk encoder x)) \<and>
   (case multiple_layer_autoencoder_models latent_dim input_shape of
      (autoencoder, encoder, decoder) \<Rightarrow>
        length (predict bk encoder x) = length x \<and>
        list_all (\<lambda>row. length row = nat latent_dim \<and> list_all (\<lambda>v. 0 \<le> v) row)
          (predict bk encoder x))"
proof (intro conjI)
  show "case build_simple_autoencoder latent_dim input_shape of
      Inl e \<Rightarrow> False
    | Inr (autoencoder, encoder, decoder) \<Rightarrow>
        length (predict bk encoder x) = length x \<and>
        list_all (\<lambda>row. length row = nat latent_dim \<and> list_all (\<lambda>v. 0 \<le> v) row)
          (predict bk encoder x)"
    by (simp add: build_simple_result simple_autoencoder_models_def Let_def Model_def
        predict_def dense_relu_rows)
  show "case build_single_layer_autoencoder latent_dim input_shape of
      Inl e \<Rightarrow> False
    | Inr (autoencoder, encoder, decoder) \<Rightarrow>
        length (predict bk encoder x) = length x \<and>
        list_all (\<lambda>row. length row = nat latent_dim \<and> list_all (\<lambda>v. 0 \<le> v) row)
          (predict bk encoder x)"
    by (simp add: build_single_result single_layer_autoencoder_models_def Let_def Model_def
        predict_def dense_relu_rows)
  show "case multiple_layer_autoencoder_models latent_dim input_shape of
      (autoencoder, encoder, decoder) \<Rightarrow>
        length (predict bk encoder x) = length x \<and>
        list_all (\<lambda>row. length row = nat latent_dim \<and> list_all (\<lambda>v. 0 \<le> v) row)
          (predict bk encoder x)"
    by (simp add: multiple_layer_autoencoder_models_def Let_def Model_def predict_def
        dense_relu_rows)
qed

section \<open>The tuning function\<close>

text \<open>
  C9. Whatever the configuration holds under its four keys, the tuning function builds its
  model with input width 13, latent dimension 2 and the weight 0.001 in its loss, and
  hands it to the training loop with batch size 8, shuffling, the validation split, no
  output, and the configured number of epochs.
\<close>

theorem tune_fixed_constants:
  assumes "params ''encoder_units'' = Some eu" and "params ''activation'' = Some act"
    and "params ''decoder_units'' = Some du" and "params ''epochs'' = Some ep"
  shows "let inputs = Input 0 (PyInt 13);
             x = Dense 0 eu act inputs;
             mu = Dense 1 (PyInt 2) (PyStr ''linear'') x;
             log_sigma = Dense 2 (PyInt 2) (PyStr ''linear'') x;
             z = Lambda_sample (PyInt 2) mu log_sigma;
             outputs = Dense 4 (PyInt 13) (PyStr ''sigmoid'') (Dense 3 du act z)
         in tune_single_layer_variational_autoencoder fit x_train y_train x_val y_val params =
            Inr (fit \<lparr>m_inputs = inputs, m_outputs = outputs, m_name = ''autoencoder'',
                      m_compiled = Some (Adam 0.001,
                        LossFn (tune_vae_loss 0.001 inputs outputs mu log_sigma))\<rparr>
                     \<lparr>fit_x = x_train, fit_y = x_train, shuffle = True,
                      validation_data = (x_val, x_val), batch_size = 8, epochs = ep,
                      verbose = False\<rparr>)"
  using assms
  by (simp add: tune_single_layer_variational_autoencoder_def getitem_def bind_err_def
      lookup_name_def Let_def Model_def call_def call_multi_def compile_def)

theorem tune_fixed_constants_witness:
  "tune_single_layer_variational_autoencoder fit0 [[1]] [] [[2]] [] config0
     = Inr (PyInt 2, 8, Input 0 (PyInt 13))"
proof -
  have h1: "config0 ''encoder_units'' = Some (PyInt 8)"
    and h2: "config0 ''activation'' = Some (PyStr ''relu'')"
    and h3: "config0 ''decoder_units'' = Some (PyInt 8)"
    and h4: "config0 ''epochs'' = Some (PyInt 2)"
    by (simp_all add: config0_def)
  from tune_fixed_constants [OF h1 h2 h3 h4, of fit0 "[[1]]" "[]" "[[2]]" "[]"]
  show ?thesis
    by (simp add: Let_def fit0_def)
qed

text \<open>
  C10. The tuning function never reads its arguments \<^verbatim>\<open>y_train\<close> and \<^verbatim>\<open>y_val\<close>: two calls
  that differ in them only, with the same training loop, return the same result.
\<close>

theorem tune_ignores_targets:
  "tune_single_layer_variational_autoencoder fit x_train y_train x_val y_val params =
   tune_single_layer_variational_autoencoder fit x_train y_train' x_val y_val' params"
  by (simp add: tune_single_layer_variational_autoencoder_def)

section \<open>The variational loss\<close>

lemma length_t_ops [simp]:
  "length (t_add a b) = min (length a) (length b)"
  "length (t_sub a b) = min (length a) (length b)"
  "length (t_mul a b) = min (length a) (length b)"
  "length (t_sub_scalar a c) = length a"
  "length (t_mul_scalar a c) = length a"
  "length (K_exp a) = length a"
  "length (K_square a) = length a"
  "length (K_abs a) = length a"
  "length (K_sum_axis1 a) = length a"
  "length (K_mean_last a) = length a"
  "length (v_scale c v) = length v"
  "length (v_add v w) = min (length v) (length w)"
  by (simp_all add: t_add_def t_sub_def t_mul_def t_sub_scalar_def t_mul_scalar_def K_exp_def
      K_square_def K_abs_def K_sum_axis1_def K_mean_last_def v_scale_def v_add_def)

lemma length_mean_absolute_error [simp]:
  "length (mean_absolute_error a b) = min (length b) (length a)"
  by (simp add: mean_absolute_error_def)

lemma length_sample [simp]:
  "length (sample rn (m, l)) =
     min (length (tvalue m)) (min (length (tvalue l)) (length (rn (length (tvalue m), static_dim m) 0 1)))"
  by (simp add: sample_def Let_def)

lemma v_add_scale_zero: "length a \<le> length b \<Longrightarrow> v_add a (v_scale 0 b) = a"
proof (induction a arbitrary: b)
  case Nil
  then show ?case by (simp add: v_add_def)
next
  case (Cons u a)
  then show ?case by (cases b) (simp_all add: v_add_def v_scale_def)
qed

lemma kl_elem_nonneg: "0 \<le> kl_elem m l"
proof -
  have "1 + l \<le> exp l" by (rule exp_ge_add_one_self)
  moreover have "0 \<le> m * m" by simp
  ultimately show ?thesis unfolding kl_elem_def by linarith
qed

lemma exp_eq_add_one: "exp (l::real) = 1 + l \<longleftrightarrow> l = 0"
proof
  assume h: "exp l = 1 + l"
  have "ln (exp l) = l" by simp
  with h have "ln (exp l) = exp l - 1" by linarith
  with ln_eq_minus_one [of "exp l"] have "exp l = 1" by simp
  then show "l = 0" by simp
qed simp

lemma kl_elem_zero: "kl_elem m l = 0 \<longleftrightarrow> m = 0 \<and> l = 0"
proof
  assume h: "kl_elem m l = 0"
  have a: "1 + l \<le> exp l" by (rule exp_ge_add_one_self)
  have b: "0 \<le> m * m" by simp
  from h a b have "m * m = 0" and "exp l = 1 + l"
    unfolding kl_elem_def by linarith+
  then show "m = 0 \<and> l = 0" by (simp add: exp_eq_add_one)
qed (simp add: kl_elem_def)

lemma kl_row_expr:
  "length m = length l \<Longrightarrow>
   map2 (-) (map (\<lambda>v. v - 1) (map2 (+) (map exp l) (map (\<lambda>v. v * v) m))) l = map2 kl_elem m l"
  by (induction m l rule: list_induct2) (simp_all add: kl_elem_def)

lemma kl_row_nonneg: "0 \<le> sum_list (map2 kl_elem m l)"
  by (rule sum_list_nonneg) (auto simp: kl_elem_nonneg)

lemma kl_row_zero:
  "length m = length l \<Longrightarrow>
   sum_list (map2 kl_elem m l) = 0 \<longleftrightarrow> list_all (\<lambda>v. v = 0) m \<and> list_all (\<lambda>v. v = 0) l"
proof (induction m l rule: list_induct2)
  case Nil
  then show ?case by simp
next
  case (Cons a m b l)
  have "0 \<le> kl_elem a b" by (rule kl_elem_nonneg)
  moreover have "0 \<le> sum_list (map2 kl_elem m l)" by (rule kl_row_nonneg)
  ultimately have "kl_elem a b + sum_list (map2 kl_elem m l) = 0 \<longleftrightarrow>
      kl_elem a b = 0 \<and> sum_list (map2 kl_elem m l) = 0"
    by linarith
  with Cons show ?case by (auto simp: kl_elem_zero)
qed

lemma kl_sum_Nil:
  "K_sum_axis1 (t_sub (t_sub_scalar (t_add (K_exp []) (K_square mu)) 1) []) = []"
  by (simp add: K_sum_axis1_def t_sub_def)

lemma kl_sum_Cons:
  assumes "length m = length l"
  shows "K_sum_axis1 (t_sub (t_sub_scalar (t_add (K_exp (l # ls)) (K_square (m # mu))) 1) (l # ls))
         = sum_list (map2 kl_elem m l)
           # K_sum_axis1 (t_sub (t_sub_scalar (t_add (K_exp ls) (K_square mu)) 1) ls)"
  unfolding K_sum_axis1_def t_sub_def t_sub_scalar_def t_add_def K_exp_def K_square_def
  by (simp only: list.map zip_Cons_Cons prod.case kl_row_expr [OF assms])

lemma kl_zero_iff:
  assumes "list_all2 (\<lambda>m l. length m = length l) mu log_sigma"
  shows "list_all (\<lambda>k. k = 0)
           (v_scale 0.5 (K_sum_axis1
              (t_sub (t_sub_scalar (t_add (K_exp log_sigma) (K_square mu)) 1) log_sigma)))
         \<longleftrightarrow> list_all (list_all (\<lambda>v. v = 0)) mu \<and> list_all (list_all (\<lambda>v. v = 0)) log_sigma"
  using assms
proof (induction rule: list_all2_induct)
  case Nil
  then show ?case
    by (simp add: kl_sum_Nil v_scale_def)
next
  case (Cons m mu l log_sigma)
  then show ?case
    by (auto simp add: kl_sum_Cons kl_row_zero v_scale_def)
qed

lemma mae_row_sum:
  "length a = length b \<Longrightarrow>
   sum_list (map abs (map2 (-) a b)) = (\<Sum>j<length b. \<bar>a ! j - b ! j\<bar>)"
  by (induction a b rule: list_induct2) (simp_all add: sum.lessThan_Suc_shift del: sum.lessThan_Suc)

lemma mae_row:
  assumes "length a = length b"
  shows "sum_list (map abs (map2 (-) a b)) / real (length (map abs (map2 (-) a b)))
         = (\<Sum>j<length b. \<bar>a ! j - b ! j\<bar>) / real (length b)"
proof -
  have "length (map abs (map2 (-) a b)) = length b"
    using assms by simp
  then show ?thesis
    by (simp only: mae_row_sum [OF assms])
qed

lemma kl_row_sum:
  "length m = length l \<Longrightarrow>
   sum_list (map2 kl_elem m l) = (\<Sum>j<length m. exp (l ! j) + (m ! j)\<^sup>2 - 1 - l ! j)"
  by (induction m l rule: list_induct2)
    (simp_all add: sum.lessThan_Suc_shift kl_elem_def power2_eq_square del: sum.lessThan_Suc)

lemma mae_nth:
  assumes "i < length X" and "i < length R"
  shows "mean_absolute_error X R ! i
         = sum_list (map abs (map2 (-) (R ! i) (X ! i))) / real (length (map abs (map2 (-) (R ! i) (X ! i))))"
  using assms
  by (simp add: mean_absolute_error_def K_mean_last_def K_abs_def t_sub_def)

lemma kl_sum_nth:
  assumes "i < length MU" and "i < length LS" and "length (MU ! i) = length (LS ! i)"
  shows "K_sum_axis1 (t_sub (t_sub_scalar (t_add (K_exp LS) (K_square MU)) 1) LS) ! i
         = sum_list (map2 kl_elem (MU ! i) (LS ! i))"
proof -
  have a: "t_add (K_exp LS) (K_square MU) ! i = map2 (+) (map exp (LS ! i)) (map (\<lambda>v. v * v) (MU ! i))"
    using assms by (simp add: t_add_def K_exp_def K_square_def)
  have b: "t_sub_scalar (t_add (K_exp LS) (K_square MU)) 1 ! i
           = map (\<lambda>v. v - 1) (t_add (K_exp LS) (K_square MU) ! i)"
    using assms by (simp add: t_sub_scalar_def)
  have c: "t_sub (t_sub_scalar (t_add (K_exp LS) (K_square MU)) 1) LS ! i
           = map2 (-) (t_sub_scalar (t_add (K_exp LS) (K_square MU)) 1 ! i) (LS ! i)"
    using assms by (simp add: t_sub_def)
  have d: "K_sum_axis1 (t_sub (t_sub_scalar (t_add (K_exp LS) (K_square MU)) 1) LS) ! i
           = sum_list (t_sub (t_sub_scalar (t_add (K_exp LS) (K_square MU)) 1) LS ! i)"
    using assms by (simp add: K_sum_axis1_def)
  show ?thesis
    by (simp only: d c b a kl_row_expr [OF assms(3)])
qed

lemma vae_rows:
  assumes "length X = B" and "length R = B" and "length MU = B" and "length LS = B"
    and "\<And>r. r < B \<Longrightarrow> length (R ! r) = length (X ! r)"
    and "\<And>r. r < B \<Longrightarrow> length (MU ! r) = length (LS ! r)"
  shows "v_add (mean_absolute_error X R)
           (v_scale beta (v_scale 0.5 (K_sum_axis1
              (t_sub (t_sub_scalar (t_add (K_exp LS) (K_square MU)) 1) LS))))
         = map (\<lambda>r. spec_row_loss beta (X ! r) (R ! r) (MU ! r) (LS ! r)) [0..<B]"
proof (rule nth_equalityI)
  show "length (v_add (mean_absolute_error X R)
           (v_scale beta (v_scale 0.5 (K_sum_axis1
              (t_sub (t_sub_scalar (t_add (K_exp LS) (K_square MU)) 1) LS)))))
        = length (map (\<lambda>r. spec_row_loss beta (X ! r) (R ! r) (MU ! r) (LS ! r)) [0..<B])"
    using assms(1-4) by simp
next
  fix i
  assume "i < length (v_add (mean_absolute_error X R)
           (v_scale beta (v_scale 0.5 (K_sum_axis1
              (t_sub (t_sub_scalar (t_add (K_exp LS) (K_square MU)) 1) LS)))))"
  then have i: "i < B" using assms(1-4) by simp
  have m: "mean_absolute_error X R ! i
           = (\<Sum>j<length (X ! i). \<bar>R ! i ! j - X ! i ! j\<bar>) / real (length (X ! i))"
    using i assms(1,2) by (simp only: mae_nth mae_row [OF assms(5) [OF i]])
  have k: "K_sum_axis1 (t_sub (t_sub_scalar (t_add (K_exp LS) (K_square MU)) 1) LS) ! i
           = (\<Sum>j<length (MU ! i). exp (LS ! i ! j) + (MU ! i ! j)\<^sup>2 - 1 - LS ! i ! j)"
    using i assms(3,4) by (simp only: kl_sum_nth [OF _ _ assms(6) [OF i]] kl_row_sum [OF assms(6) [OF i]])
  show "v_add (mean_absolute_error X R)
           (v_scale beta (v_scale 0.5 (K_sum_axis1
              (t_sub (t_sub_scalar (t_add (K_exp LS) (K_square MU)) 1) LS)))) ! i
        = map (\<lambda>r. spec_row_loss beta (X ! r) (R ! r) (MU ! r) (LS ! r)) [0..<B] ! i"
    using i assms(1-4) by (simp add: v_add_def v_scale_def m k spec_row_loss_def)
qed

lemma dense_row_length:
  assumes "r < length x" and "a = PyStr ''relu'' \<or> a = PyStr ''sigmoid'' \<or> a = PyStr ''linear''"
  shows "length (dense W b (activation other a) u x ! r) = u"
  using assms by (auto simp add: dense_def activation_def)

lemma vae_loss_rows:
  assumes "length (eval bk i) = B" and "length (eval bk out) = B"
    and "length (eval bk m) = B" and "length (eval bk l) = B"
    and "\<And>r. r < B \<Longrightarrow> length (eval bk out ! r) = length (eval bk i ! r)"
    and "\<And>r. r < B \<Longrightarrow> length (eval bk m ! r) = length (eval bk l ! r)"
  shows "vae_loss beta i out m l bk y_true y_pred =
         PerSample (map (\<lambda>r. spec_row_loss beta (eval bk i ! r) (eval bk out ! r)
                          (eval bk m ! r) (eval bk l ! r)) [0..<B])"
  unfolding vae_loss_def Let_def
  by (simp only: vae_rows [OF assms])

lemma dense_zero:
  "dense (\<lambda>i j. 0) (\<lambda>j. 0) act u x = map (\<lambda>row. act (replicate u 0)) x"
  by (simp add: dense_def map_replicate_const)

lemma replicate_two: "replicate 2 c = [c, c]"
  by (simp add: numeral_2_eq_2)



lemma build_single_variational_result:
  "build_single_layer_variational_autoencoder ld iw beta =
     (let inputs = Input 0 (PyInt iw);
          x = Dense 0 (PyInt 1024) (PyStr ''relu'') inputs;
          mu = Dense 1 (PyInt ld) (PyStr ''linear'') x;
          log_sigma = Dense 2 (PyInt ld) (PyStr ''linear'') x;
          z = Lambda_sample (PyInt ld) mu log_sigma;
          latent_inputs = Input 1 (PyInt ld);
          outputs = Dense 4 (PyInt iw) (PyStr ''sigmoid'') (Dense 3 (PyInt 1024) (PyStr ''relu'') z)
      in Inr (\<lparr>m_inputs = inputs, m_outputs = outputs, m_name = ''autoencoder'',
                m_compiled = Some (Adam 0.001, LossFn (vae_loss beta inputs outputs mu log_sigma))\<rparr>,
              \<lparr>m_inputs = inputs, m_outputs = [mu, log_sigma, z], m_name = ''encoder'',
                m_compiled = None\<rparr>,
              \<lparr>m_inputs = latent_inputs,
                m_outputs = Dense 4 (PyInt iw) (PyStr ''sigmoid'')
                              (Dense 3 (PyInt 1024) (PyStr ''relu'') latent_inputs),
                m_name = ''decoder'', m_compiled = None\<rparr>))"
  by (simp add: build_single_layer_variational_autoencoder_def lookup_name_def Let_def
      Model_def compile_def call_def call_multi_def)

lemma build_multiple_variational_result:
  "build_multiple_layer_variational_autoencoder ld iw beta =
     (let inputs = Input 0 (PyInt iw);
          x = Dense 2 (PyInt 32) (PyStr ''relu'') (Dense 1 (PyInt 64) (PyStr ''relu'')
                (Dense 0 (PyInt 128) (PyStr ''relu'') inputs));
          mu = Dense 3 (PyInt ld) (PyStr ''linear'') x;
          log_sigma = Dense 4 (PyInt ld) (PyStr ''linear'') x;
          z = Lambda_sample (PyInt ld) mu log_sigma;
          latent_inputs = Input 1 (PyInt ld);
          dec = (\<lambda>t. Dense 8 (PyInt iw) (PyStr ''sigmoid'') (Dense 7 (PyInt 128) (PyStr ''relu'')
                  (Dense 6 (PyInt 64) (PyStr ''relu'') (Dense 5 (PyInt 32) (PyStr ''relu'') t))));
          outputs = dec z
      in Inr (\<lparr>m_inputs = inputs, m_outputs = outputs, m_name = ''autoencoder'',
                m_compiled = Some (Adam 0.001, LossFn (vae_loss beta inputs outputs mu log_sigma))\<rparr>,
              \<lparr>m_inputs = inputs, m_outputs = [mu, log_sigma, z], m_name = ''encoder'',
                m_compiled = None\<rparr>,
              \<lparr>m_inputs = latent_inputs, m_outputs = dec latent_inputs,
                m_name = ''decoder'', m_compiled = None\<rparr>))"
  by (simp add: build_multiple_layer_variational_autoencoder_def lookup_name_def Let_def
      Model_def compile_def call_def call_multi_def)

lemma bk0_feed: "bk0\<lparr>feed := (feed bk0)(t := batch0)\<rparr> = bk0"
  by (simp add: bk0_def fun_eq_iff)

lemma loss0:
  "case build_single_layer_variational_autoencoder 2 13 (1/1000) of
     Inl e \<Rightarrow> False
   | Inr (autoencoder, encoder, decoder) \<Rightarrow>
       compiled_loss autoencoder bk0 y_true y_pred = Some (PerSample [0, 1])"
  by (simp add: build_single_variational_result Let_def compiled_loss_def
      vae_loss_def bk0_def batch0_def dense_zero activation_def relu_def sigmoid_def
      sum_list_replicate sample_def
      t_add_def t_sub_def t_mul_def t_sub_scalar_def t_mul_scalar_def K_exp_def K_square_def
      K_abs_def K_sum_axis1_def K_mean_last_def v_add_def v_scale_def mean_absolute_error_def
      replicate_two)

lemma dense_linear_shapes:
  "list_all2 (\<lambda>m l. length m = length l)
     (dense W b (activation other (PyStr ''linear'')) u x)
     (dense W' b' (activation other' (PyStr ''linear'')) u x)"
  by (simp add: list_all2_conv_all_nth dense_row_length)

text \<open>
  C3. For both variational builders the compiled loss, evaluated on a batch \<open>x\<close> of rows of
  the input width, is for each row the mean absolute error between the row and its
  reconstruction plus \<open>beta * 0.5 * sum (exp log_variance + mean^2 - 1 - log_variance)\<close>,
  where reconstruction, mean and log variance are what the builder's own tensors evaluate
  to on the batch; the arguments \<open>y_true\<close> and \<open>y_pred\<close> play no part. The random source is
  assumed to give as many rows of noise as it is asked for.
\<close>

theorem vae_loss_is_spec_formula:
  assumes "list_all (\<lambda>row. length row = nat input_shape) x"
    and "length (random_normal bk (length x, nat latent_dim) 0 1) = length x"
  shows "(case build_single_layer_variational_autoencoder latent_dim input_shape beta of
       Inl e \<Rightarrow> False
     | Inr (autoencoder, encoder, decoder) \<Rightarrow>
         compiled_loss autoencoder (bk\<lparr>feed := (feed bk)(m_inputs autoencoder := x)\<rparr>) y_true y_pred
         = Some (PerSample (map (\<lambda>r. spec_row_loss beta (x ! r) (predict bk autoencoder x ! r)
               (predict_multi bk encoder x ! 0 ! r) (predict_multi bk encoder x ! 1 ! r))
               [0..<length x]))) \<and>
    (case build_multiple_layer_variational_autoencoder latent_dim input_shape beta of
       Inl e \<Rightarrow> False
     | Inr (autoencoder, encoder, decoder) \<Rightarrow>
         compiled_loss autoencoder (bk\<lparr>feed := (feed bk)(m_inputs autoencoder := x)\<rparr>) y_true y_pred
         = Some (PerSample (map (\<lambda>r. spec_row_loss beta (x ! r) (predict bk autoencoder x ! r)
               (predict_multi bk encoder x ! 0 ! r) (predict_multi bk encoder x ! 1 ! r))
               [0..<length x])))"
proof (intro conjI)
  let ?bk = "bk\<lparr>feed := (feed bk)(Input 0 (PyInt input_shape) := x)\<rparr>"
  let ?inputs = "Input 0 (PyInt input_shape)"
  have rows: "\<And>r. r < length x \<Longrightarrow> length (x ! r) = nat input_shape"
    using assms(1) by (simp add: list_all_length)
  show "case build_single_layer_variational_autoencoder latent_dim input_shape beta of
       Inl e \<Rightarrow> False
     | Inr (autoencoder, encoder, decoder) \<Rightarrow>
         compiled_loss autoencoder (bk\<lparr>feed := (feed bk)(m_inputs autoencoder := x)\<rparr>) y_true y_pred
         = Some (PerSample (map (\<lambda>r. spec_row_loss beta (x ! r) (predict bk autoencoder x ! r)
               (predict_multi bk encoder x ! 0 ! r) (predict_multi bk encoder x ! 1 ! r))
               [0..<length x]))"
  proof -
    let ?h = "Dense 0 (PyInt 1024) (PyStr ''relu'') ?inputs"
    let ?mu = "Dense 1 (PyInt latent_dim) (PyStr ''linear'') ?h"
    let ?ls = "Dense 2 (PyInt latent_dim) (PyStr ''linear'') ?h"
    let ?out = "Dense 4 (PyInt input_shape) (PyStr ''sigmoid'')
                  (Dense 3 (PyInt 1024) (PyStr ''relu'') (Lambda_sample (PyInt latent_dim) ?mu ?ls))"
    have "vae_loss beta ?inputs ?out ?mu ?ls ?bk y_true y_pred =
           PerSample (map (\<lambda>r. spec_row_loss beta (eval ?bk ?inputs ! r) (eval ?bk ?out ! r)
                            (eval ?bk ?mu ! r) (eval ?bk ?ls ! r)) [0..<length x])"
    proof (rule vae_loss_rows)
      show "length (eval ?bk ?inputs) = length x" by simp
      show "length (eval ?bk ?out) = length x" using assms(2) by simp
      show "length (eval ?bk ?mu) = length x" by simp
      show "length (eval ?bk ?ls) = length x" by simp
      show "length (eval ?bk ?out ! r) = length (eval ?bk ?inputs ! r)" if "r < length x" for r
        using that assms(2) by (simp add: dense_row_length rows)
      show "length (eval ?bk ?mu ! r) = length (eval ?bk ?ls ! r)" if "r < length x" for r
        using that by (simp add: dense_row_length)
    qed
    then show ?thesis
      by (simp add: build_single_variational_result Let_def compiled_loss_def predict_def
          predict_multi_def)
  qed
  show "case build_multiple_layer_variational_autoencoder latent_dim input_shape beta of
       Inl e \<Rightarrow> False
     | Inr (autoencoder, encoder, decoder) \<Rightarrow>
         compiled_loss autoencoder (bk\<lparr>feed := (feed bk)(m_inputs autoencoder := x)\<rparr>) y_true y_pred
         = Some (PerSample (map (\<lambda>r. spec_row_loss beta (x ! r) (predict bk autoencoder x ! r)
               (predict_multi bk encoder x ! 0 ! r) (predict_multi bk encoder x ! 1 ! r))
               [0..<length x]))"
  proof -
    let ?h = "Dense 2 (PyInt 32) (PyStr ''relu'') (Dense 1 (PyInt 64) (PyStr ''relu'')
                (Dense 0 (PyInt 128) (PyStr ''relu'') ?inputs))"
    let ?mu = "Dense 3 (PyInt latent_dim) (PyStr ''linear'') ?h"
    let ?ls = "Dense 4 (PyInt latent_dim) (PyStr ''linear'') ?h"
    let ?out = "Dense 8 (PyInt input_shape) (PyStr ''sigmoid'') (Dense 7 (PyInt 128) (PyStr ''relu'')
                  (Dense 6 (PyInt 64) (PyStr ''relu'') (Dense 5 (PyInt 32) (PyStr ''relu'')
                     (Lambda_sample (PyInt latent_dim) ?mu ?ls))))"
    have "vae_loss beta ?inputs ?out ?mu ?ls ?bk y_true y_pred =
           PerSample (map (\<lambda>r. spec_row_loss beta (eval ?bk ?inputs ! r) (eval ?bk ?out ! r)
                            (eval ?bk ?mu ! r) (eval ?bk ?ls ! r)) [0..<length x])"
    proof (rule vae_loss_rows)
      show "length (eval ?bk ?inputs) = length x" by simp
      show "length (eval ?bk ?out) = length x" using assms(2) by simp
      show "length (eval ?bk ?mu) = length x" by simp
      show "length (eval ?bk ?ls) = length x" by simp
      show "length (eval ?bk ?out ! r) = length (eval ?bk ?inputs ! r)" if "r < length x" for r
        using that assms(2) by (simp add: dense_row_length rows)
      show "length (eval ?bk ?mu ! r) = length (eval ?bk ?ls ! r)" if "r < length x" for r
        using that by (simp add: dense_row_length)
    qed
    then show ?thesis
      by (simp add: build_multiple_variational_result Let_def compiled_loss_def predict_def
          predict_multi_def)
  qed
qed

theorem vae_loss_is_spec_formula_witness:
  "case build_single_layer_variational_autoencoder 2 13 (1/1000) of
     Inl e \<Rightarrow> False
   | Inr (autoencoder, encoder, decoder) \<Rightarrow>
       map (\<lambda>r. spec_row_loss (1/1000) (batch0 ! r) (predict bk0 autoencoder batch0 ! r)
               (predict_multi bk0 encoder batch0 ! 0 ! r) (predict_multi bk0 encoder batch0 ! 1 ! r))
           [0..<length batch0] = [0, 1]"
proof -
  have h1: "list_all (\<lambda>row. length row = nat 13) batch0"
    by (simp add: batch0_def)
  have h2: "length (random_normal bk0 (length batch0, nat 2) 0 1) = length batch0"
    by (simp add: bk0_def)
  from vae_loss_is_spec_formula [OF h1 h2, where beta = "1/1000" and y_true = "[]" and y_pred = "[]", THEN conjunct1]
    loss0 [of "[]" "[]"]
  show ?thesis
    by (simp add: build_single_variational_result Let_def bk0_feed)
qed

lemma dense_const:
  "dense (\<lambda>i j. 0) (\<lambda>j. c) act u x = map (\<lambda>row. act (replicate u c)) x"
  by (simp add: dense_def map_replicate_const)






lemma kl_zero_single:
  "case build_single_layer_variational_autoencoder latent_dim input_shape beta of
      Inl e \<Rightarrow> False
    | Inr (autoencoder, encoder, decoder) \<Rightarrow>
        (list_all (\<lambda>k. k = 0)
           (v_scale 0.5 (K_sum_axis1
              (t_sub (t_sub_scalar (t_add (K_exp (predict_multi bk encoder x ! 1))
                 (K_square (predict_multi bk encoder x ! 0))) 1) (predict_multi bk encoder x ! 1))))
         \<longleftrightarrow> list_all (list_all (\<lambda>v. v = 0)) (predict_multi bk encoder x ! 0) \<and>
             list_all (list_all (\<lambda>v. v = 0)) (predict_multi bk encoder x ! 1))"
proof -
  have "list_all2 (\<lambda>m l. length m = length l)
     (dense W b (activation other (PyStr ''linear'')) u h)
     (dense W' b' (activation other (PyStr ''linear'')) u h)" for W b W' b' other u h
    by (rule dense_linear_shapes)
  from kl_zero_iff [OF this] show ?thesis
    by (simp add: build_single_variational_result Let_def predict_multi_def)
qed

lemma kl_zero_multiple:
  "case build_multiple_layer_variational_autoencoder latent_dim input_shape beta of
      Inl e \<Rightarrow> False
    | Inr (autoencoder, encoder, decoder) \<Rightarrow>
        (list_all (\<lambda>k. k = 0)
           (v_scale 0.5 (K_sum_axis1
              (t_sub (t_sub_scalar (t_add (K_exp (predict_multi bk encoder x ! 1))
                 (K_square (predict_multi bk encoder x ! 0))) 1) (predict_multi bk encoder x ! 1))))
         \<longleftrightarrow> list_all (list_all (\<lambda>v. v = 0)) (predict_multi bk encoder x ! 0) \<and>
             list_all (list_all (\<lambda>v. v = 0)) (predict_multi bk encoder x ! 1))"
proof -
  have "list_all2 (\<lambda>m l. length m = length l)
     (dense W b (activation other (PyStr ''linear'')) u h)
     (dense W' b' (activation other (PyStr ''linear'')) u h)" for W b W' b' other u h
    by (rule dense_linear_shapes)
  from kl_zero_iff [OF this] show ?thesis
    by (simp add: build_multiple_variational_result Let_def predict_multi_def)
qed

lemma v_add_eq_left:
  "length a = length b \<Longrightarrow> v_add a b = a \<longleftrightarrow> list_all (\<lambda>k. k = 0) b"
  by (induction a b rule: list_induct2) (simp_all add: v_add_def)

lemma list_all_zero_v_scale:
  "c \<noteq> 0 \<Longrightarrow> list_all (\<lambda>k. k = 0) (v_scale c v) \<longleftrightarrow> list_all (\<lambda>k. k = 0) v"
  by (simp add: v_scale_def list_all_iff)

lemma vae_loss_eq_beta_zero:
  assumes "beta \<noteq> 0"
    and "length (eval bk i) = B" and "length (eval bk out) = B"
    and "length (eval bk m) = B" and "length (eval bk l) = B"
    and "list_all2 (\<lambda>a b. length a = length b) (eval bk m) (eval bk l)"
  shows "vae_loss beta i out m l bk y_true y_pred = vae_loss 0 i out m l bk y_true y_pred
         \<longleftrightarrow> list_all (list_all (\<lambda>v. v = 0)) (eval bk m) \<and>
             list_all (list_all (\<lambda>v. v = 0)) (eval bk l)"
proof -
  let ?R = "mean_absolute_error (eval bk i) (eval bk out)"
  let ?K = "v_scale 0.5 (K_sum_axis1
              (t_sub (t_sub_scalar (t_add (K_exp (eval bk l)) (K_square (eval bk m))) 1) (eval bk l)))"
  have lenR: "length ?R = B" using assms(2,3) by simp
  have lenK: "length ?K = B" using assms(4,5) by simp
  have zero: "v_add ?R (v_scale 0 ?K) = ?R"
    by (rule v_add_scale_zero) (simp only: lenR lenK)
  have "v_add ?R (v_scale beta ?K) = ?R \<longleftrightarrow> list_all (\<lambda>k. k = 0) (v_scale beta ?K)"
    by (rule v_add_eq_left) (use lenR lenK assms(4,5) in simp)
  also have "\<dots> \<longleftrightarrow> list_all (\<lambda>k. k = 0) ?K"
    by (rule list_all_zero_v_scale) (rule assms(1))
  also have "\<dots> \<longleftrightarrow> list_all (list_all (\<lambda>v. v = 0)) (eval bk m) \<and>
             list_all (list_all (\<lambda>v. v = 0)) (eval bk l)"
    by (rule kl_zero_iff) (rule assms(6))
  finally have main: "v_add ?R (v_scale beta ?K) = ?R \<longleftrightarrow>
      list_all (list_all (\<lambda>v. v = 0)) (eval bk m) \<and> list_all (list_all (\<lambda>v. v = 0)) (eval bk l)" .
  show ?thesis
    unfolding vae_loss_def Let_def
    by (simp only: zero loss_value.inject main)
qed

lemma kl_decides_single:
  assumes "length (random_normal bk (length x, nat latent_dim) 0 1) = length x" and "beta \<noteq> 0"
  shows "case build_single_layer_variational_autoencoder latent_dim input_shape beta of
      Inl e \<Rightarrow> False
    | Inr (autoencoder, encoder, decoder) \<Rightarrow>
       (case build_single_layer_variational_autoencoder latent_dim input_shape 0 of
          Inl e \<Rightarrow> False
        | Inr (autoencoder0, encoder0, decoder0) \<Rightarrow>
           (compiled_loss autoencoder (bk\<lparr>feed := (feed bk)(m_inputs autoencoder := x)\<rparr>) y_true y_pred
            = compiled_loss autoencoder0 (bk\<lparr>feed := (feed bk)(m_inputs autoencoder := x)\<rparr>) y_true y_pred
            \<longleftrightarrow> list_all (list_all (\<lambda>v. v = 0)) (predict_multi bk encoder x ! 0) \<and>
                list_all (list_all (\<lambda>v. v = 0)) (predict_multi bk encoder x ! 1)))"
proof -
  let ?bk = "bk\<lparr>feed := (feed bk)(Input 0 (PyInt input_shape) := x)\<rparr>"
  let ?inputs = "Input 0 (PyInt input_shape)"
  let ?h = "Dense 0 (PyInt 1024) (PyStr ''relu'') ?inputs"
  let ?mu = "Dense 1 (PyInt latent_dim) (PyStr ''linear'') ?h"
  let ?ls = "Dense 2 (PyInt latent_dim) (PyStr ''linear'') ?h"
  let ?out = "Dense 4 (PyInt input_shape) (PyStr ''sigmoid'')
                (Dense 3 (PyInt 1024) (PyStr ''relu'') (Lambda_sample (PyInt latent_dim) ?mu ?ls))"
  have "vae_loss beta ?inputs ?out ?mu ?ls ?bk y_true y_pred
          = vae_loss 0 ?inputs ?out ?mu ?ls ?bk y_true y_pred
        \<longleftrightarrow> list_all (list_all (\<lambda>v. v = 0)) (eval ?bk ?mu) \<and>
            list_all (list_all (\<lambda>v. v = 0)) (eval ?bk ?ls)"
  proof (rule vae_loss_eq_beta_zero [where B = "length x"])
    show "beta \<noteq> 0" by (rule assms(2))
    show "length (eval ?bk ?inputs) = length x" by simp
    show "length (eval ?bk ?out) = length x" using assms(1) by simp
    show "length (eval ?bk ?mu) = length x" by simp
    show "length (eval ?bk ?ls) = length x" by simp
    show "list_all2 (\<lambda>a b. length a = length b) (eval ?bk ?mu) (eval ?bk ?ls)"
      by (simp add: dense_linear_shapes)
  qed
  then show ?thesis
    by (simp add: build_single_variational_result Let_def compiled_loss_def predict_multi_def)
qed

lemma kl_decides_multiple:
  assumes "length (random_normal bk (length x, nat latent_dim) 0 1) = length x" and "beta \<noteq> 0"
  shows "case build_multiple_layer_variational_autoencoder latent_dim input_shape beta of
      Inl e \<Rightarrow> False
    | Inr (autoencoder, encoder, decoder) \<Rightarrow>
       (case build_multiple_layer_variational_autoencoder latent_dim input_shape 0 of
          Inl e \<Rightarrow> False
        | Inr (autoencoder0, encoder0, decoder0) \<Rightarrow>
           (compiled_loss autoencoder (bk\<lparr>feed := (feed bk)(m_inputs autoencoder := x)\<rparr>) y_true y_pred
            = compiled_loss autoencoder0 (bk\<lparr>feed := (feed bk)(m_inputs autoencoder := x)\<rparr>) y_true y_pred
            \<longleftrightarrow> list_all (list_all (\<lambda>v. v = 0)) (predict_multi bk encoder x ! 0) \<and>
                list_all (list_all (\<lambda>v. v = 0)) (predict_multi bk encoder x ! 1)))"
proof -
  let ?bk = "bk\<lparr>feed := (feed bk)(Input 0 (PyInt input_shape) := x)\<rparr>"
  let ?inputs = "Input 0 (PyInt input_shape)"
  let ?h = "Dense 2 (PyInt 32) (PyStr ''relu'') (Dense 1 (PyInt 64) (PyStr ''relu'')
              (Dense 0 (PyInt 128) (PyStr ''relu'') ?inputs))"
  let ?mu = "Dense 3 (PyInt latent_dim) (PyStr ''linear'') ?h"
  let ?ls = "Dense 4 (PyInt latent_dim) (PyStr ''linear'') ?h"
  let ?out = "Dense 8 (PyInt input_shape) (PyStr ''sigmoid'') (Dense 7 (PyInt 128) (PyStr ''relu'')
                (Dense 6 (PyInt 64) (PyStr ''relu'') (Dense 5 (PyInt 32) (PyStr ''relu'')
                   (Lambda_sample (PyInt latent_dim) ?mu ?ls))))"
  have "vae_loss beta ?inputs ?out ?mu ?ls ?bk y_true y_pred
          = vae_loss 0 ?inputs ?out ?mu ?ls ?bk y_true y_pred
        \<longleftrightarrow> list_all (list_all (\<lambda>v. v = 0)) (eval ?bk ?mu) \<and>
            list_all (list_all (\<lambda>v. v = 0)) (eval ?bk ?ls)"
  proof (rule vae_loss_eq_beta_zero [where B = "length x"])
    show "beta \<noteq> 0" by (rule assms(2))
    show "length (eval ?bk ?inputs) = length x" by simp
    show "length (eval ?bk ?out) = length x" using assms(1) by simp
    show "length (eval ?bk ?mu) = length x" by simp
    show "length (eval ?bk ?ls) = length x" by simp
    show "list_all2 (\<lambda>a b. length a = length b) (eval ?bk ?mu) (eval ?bk ?ls)"
      by (simp add: dense_linear_shapes)
  qed
  then show ?thesis
    by (simp add: build_multiple_variational_result Let_def compiled_loss_def predict_multi_def)
qed

lemma bk_mean1_feed: "bk_mean1\<lparr>feed := (feed bk_mean1)(t := batch0)\<rparr> = bk_mean1"
  by (simp add: bk_mean1_def bk0_def fun_eq_iff)

lemma zero_mean_at_bk0:
  "case build_single_layer_variational_autoencoder 2 13 b of
     Inl e \<Rightarrow> False
   | Inr (autoencoder, encoder, decoder) \<Rightarrow>
       list_all (list_all (\<lambda>v. v = 0)) (predict_multi bk0 encoder batch0 ! 0) \<and>
       list_all (list_all (\<lambda>v. v = 0)) (predict_multi bk0 encoder batch0 ! 1)"
  by (simp add: build_single_variational_result Let_def predict_multi_def bk0_def batch0_def
      dense_const activation_def relu_def replicate_two)

lemma nonzero_mean_at_bk_mean1:
  "case build_single_layer_variational_autoencoder 2 13 b of
     Inl e \<Rightarrow> False
   | Inr (autoencoder, encoder, decoder) \<Rightarrow>
       \<not> list_all (list_all (\<lambda>v. v = 0)) (predict_multi bk_mean1 encoder batch0 ! 0)"
  by (simp add: build_single_variational_result Let_def predict_multi_def bk_mean1_def bk0_def
      batch0_def dense_const activation_def relu_def replicate_two)

text \<open>
  C8. With \<open>beta = 0\<close> the loss compiled by either variational builder is the
  reconstruction loss alone, on every batch and for all parameters. For \<open>beta\<close> other than
  0, the compiled loss on a batch is the reconstruction loss alone (the loss the same
  builder compiles with \<open>beta = 0\<close>), that is, its KL term is zero in every row, exactly
  when every component of the mean and of the log variance that the encoder gives on the
  batch is zero; the random source is assumed to give as many rows of noise as the batch
  has. The KL term itself, \<open>0.5 * sum (exp log_variance + mean^2 - 1 - log_variance)\<close> for
  each row, is zero in every row exactly when mean and log variance are zero everywhere:
  for the encoder's outputs, and for any two matrices of one shape.
\<close>

theorem beta_zero_and_kl_zero:
  "(case build_single_layer_variational_autoencoder latent_dim input_shape 0 of
      Inl e \<Rightarrow> False
    | Inr (autoencoder, encoder, decoder) \<Rightarrow>
        compiled_loss autoencoder bk y_true y_pred =
          Some (PerSample (mean_absolute_error (eval bk (m_inputs autoencoder))
                             (eval bk (m_outputs autoencoder))))) \<and>
   (case build_multiple_layer_variational_autoencoder latent_dim input_shape 0 of
      Inl e \<Rightarrow> False
    | Inr (autoencoder, encoder, decoder) \<Rightarrow>
        compiled_loss autoencoder bk y_true y_pred =
          Some (PerSample (mean_absolute_error (eval bk (m_inputs autoencoder))
                             (eval bk (m_outputs autoencoder))))) \<and>
   (length (random_normal bk (length x, nat latent_dim) 0 1) = length x \<and> beta \<noteq> 0 \<longrightarrow>
      (case build_single_layer_variational_autoencoder latent_dim input_shape beta of
         Inl e \<Rightarrow> False
       | Inr (autoencoder, encoder, decoder) \<Rightarrow>
          (case build_single_layer_variational_autoencoder latent_dim input_shape 0 of
             Inl e \<Rightarrow> False
           | Inr (autoencoder0, encoder0, decoder0) \<Rightarrow>
              (compiled_loss autoencoder (bk\<lparr>feed := (feed bk)(m_inputs autoencoder := x)\<rparr>) y_true y_pred
               = compiled_loss autoencoder0 (bk\<lparr>feed := (feed bk)(m_inputs autoencoder := x)\<rparr>) y_true y_pred
               \<longleftrightarrow> list_all (list_all (\<lambda>v. v = 0)) (predict_multi bk encoder x ! 0) \<and>
                   list_all (list_all (\<lambda>v. v = 0)) (predict_multi bk encoder x ! 1))))) \<and>
   (length (random_normal bk (length x, nat latent_dim) 0 1) = length x \<and> beta \<noteq> 0 \<longrightarrow>
      (case build_multiple_layer_variational_autoencoder latent_dim input_shape beta of
         Inl e \<Rightarrow> False
       | Inr (autoencoder, encoder, decoder) \<Rightarrow>
          (case build_multiple_layer_variational_autoencoder latent_dim input_shape 0 of
             Inl e \<Rightarrow> False
           | Inr (autoencoder0, encoder0, decoder0) \<Rightarrow>
              (compiled_loss autoencoder (bk\<lparr>feed := (feed bk)(m_inputs autoencoder := x)\<rparr>) y_true y_pred
               = compiled_loss autoencoder0 (bk\<lparr>feed := (feed bk)(m_inputs autoencoder := x)\<rparr>) y_true y_pred
               \<longleftrightarrow> list_all (list_all (\<lambda>v. v = 0)) (predict_multi bk encoder x ! 0) \<and>
                   list_all (list_all (\<lambda>v. v = 0)) (predict_multi bk encoder x ! 1))))) \<and>
   (case build_single_layer_variational_autoencoder latent_dim input_shape beta of
      Inl e \<Rightarrow> False
    | Inr (autoencoder, encoder, decoder) \<Rightarrow>
        (list_all (\<lambda>k. k = 0)
           (v_scale 0.5 (K_sum_axis1
              (t_sub (t_sub_scalar (t_add (K_exp (predict_multi bk encoder x ! 1))
                 (K_square (predict_multi bk encoder x ! 0))) 1) (predict_multi bk encoder x ! 1))))
         \<longleftrightarrow> list_all (list_all (\<lambda>v. v = 0)) (predict_multi bk encoder x ! 0) \<and>
             list_all (list_all (\<lambda>v. v = 0)) (predict_multi bk encoder x ! 1))) \<and>
   (case build_multiple_layer_variational_autoencoder latent_dim input_shape beta of
      Inl e \<Rightarrow> False
    | Inr (autoencoder, encoder, decoder) \<Rightarrow>
        (list_all (\<lambda>k. k = 0)
           (v_scale 0.5 (K_sum_axis1
              (t_sub (t_sub_scalar (t_add (K_exp (predict_multi bk encoder x ! 1))
                 (K_square (predict_multi bk encoder x ! 0))) 1) (predict_multi bk encoder x ! 1))))
         \<longleftrightarrow> list_all (list_all (\<lambda>v. v = 0)) (predict_multi bk encoder x ! 0) \<and>
             list_all (list_all (\<lambda>v. v = 0)) (predict_multi bk encoder x ! 1))) \<and>
   (list_all2 (\<lambda>m l. length m = length l) mu log_sigma \<longrightarrow>
      (list_all (\<lambda>k. k = 0)
         (v_scale 0.5 (K_sum_axis1
            (t_sub (t_sub_scalar (t_add (K_exp log_sigma) (K_square mu)) 1) log_sigma)))
       \<longleftrightarrow> list_all (list_all (\<lambda>v. v = 0)) mu \<and> list_all (list_all (\<lambda>v. v = 0)) log_sigma))"
proof -
  have a: "case build_single_layer_variational_autoencoder latent_dim input_shape 0 of
      Inl e \<Rightarrow> False
    | Inr (autoencoder, encoder, decoder) \<Rightarrow>
        compiled_loss autoencoder bk y_true y_pred =
          Some (PerSample (mean_absolute_error (eval bk (m_inputs autoencoder))
                             (eval bk (m_outputs autoencoder))))"
    by (simp add: build_single_variational_result Let_def compiled_loss_def vae_loss_def
        v_add_scale_zero)
  have b: "case build_multiple_layer_variational_autoencoder latent_dim input_shape 0 of
      Inl e \<Rightarrow> False
    | Inr (autoencoder, encoder, decoder) \<Rightarrow>
        compiled_loss autoencoder bk y_true y_pred =
          Some (PerSample (mean_absolute_error (eval bk (m_inputs autoencoder))
                             (eval bk (m_outputs autoencoder))))"
    by (simp add: build_multiple_variational_result Let_def compiled_loss_def vae_loss_def
        v_add_scale_zero)
  have c: "list_all2 (\<lambda>m l. length m = length l) mu log_sigma \<longrightarrow>
      (list_all (\<lambda>k. k = 0)
         (v_scale 0.5 (K_sum_axis1
            (t_sub (t_sub_scalar (t_add (K_exp log_sigma) (K_square mu)) 1) log_sigma)))
       \<longleftrightarrow> list_all (list_all (\<lambda>v. v = 0)) mu \<and> list_all (list_all (\<lambda>v. v = 0)) log_sigma)"
    using kl_zero_iff [of mu log_sigma] by blast
  have d: "length (random_normal bk (length x, nat latent_dim) 0 1) = length x \<and> beta \<noteq> 0 \<longrightarrow>
      (case build_single_layer_variational_autoencoder latent_dim input_shape beta of
         Inl e \<Rightarrow> False
       | Inr (autoencoder, encoder, decoder) \<Rightarrow>
          (case build_single_layer_variational_autoencoder latent_dim input_shape 0 of
             Inl e \<Rightarrow> False
           | Inr (autoencoder0, encoder0, decoder0) \<Rightarrow>
              (compiled_loss autoencoder (bk\<lparr>feed := (feed bk)(m_inputs autoencoder := x)\<rparr>) y_true y_pred
               = compiled_loss autoencoder0 (bk\<lparr>feed := (feed bk)(m_inputs autoencoder := x)\<rparr>) y_true y_pred
               \<longleftrightarrow> list_all (list_all (\<lambda>v. v = 0)) (predict_multi bk encoder x ! 0) \<and>
                   list_all (list_all (\<lambda>v. v = 0)) (predict_multi bk encoder x ! 1))))"
    using kl_decides_single [where bk = bk and x = x and latent_dim = latent_dim and beta = beta
        and input_shape = input_shape and y_true = y_true and y_pred = y_pred]
    by blast
  have e: "length (random_normal bk (length x, nat latent_dim) 0 1) = length x \<and> beta \<noteq> 0 \<longrightarrow>
      (case build_multiple_layer_variational_autoencoder latent_dim input_shape beta of
         Inl e \<Rightarrow> False
       | Inr (autoencoder, encoder, decoder) \<Rightarrow>
          (case build_multiple_layer_variational_autoencoder latent_dim input_shape 0 of
             Inl e \<Rightarrow> False
           | Inr (autoencoder0, encoder0, decoder0) \<Rightarrow>
              (compiled_loss autoencoder (bk\<lparr>feed := (feed bk)(m_inputs autoencoder := x)\<rparr>) y_true y_pred
               = compiled_loss autoencoder0 (bk\<lparr>feed := (feed bk)(m_inputs autoencoder := x)\<rparr>) y_true y_pred
               \<longleftrightarrow> list_all (list_all (\<lambda>v. v = 0)) (predict_multi bk encoder x ! 0) \<and>
                   list_all (list_all (\<lambda>v. v = 0)) (predict_multi bk encoder x ! 1))))"
    using kl_decides_multiple [where bk = bk and x = x and latent_dim = latent_dim and beta = beta
        and input_shape = input_shape and y_true = y_true and y_pred = y_pred]
    by blast
  from a b d e
    kl_zero_single [where latent_dim = latent_dim and input_shape = input_shape
      and beta = beta and bk = bk and x = x]
    kl_zero_multiple [where latent_dim = latent_dim and input_shape = input_shape
      and beta = beta and bk = bk and x = x] c
  show ?thesis
    by (intro conjI)
qed

theorem beta_zero_and_kl_zero_witness:
  "(case build_single_layer_variational_autoencoder 2 13 1 of
      Inl e \<Rightarrow> False
    | Inr (autoencoder, encoder, decoder) \<Rightarrow>
        (case build_single_layer_variational_autoencoder 2 13 0 of
           Inl e \<Rightarrow> False
         | Inr (autoencoder0, encoder0, decoder0) \<Rightarrow>
             compiled_loss autoencoder bk0 [] [] = compiled_loss autoencoder0 bk0 [] [] \<and>
             compiled_loss autoencoder bk_mean1 [] [] \<noteq> compiled_loss autoencoder0 bk_mean1 [] [])) \<and>
   list_all2 (\<lambda>m l. length m = length l) [[1, 0]] [[0, 0::real]] \<and>
   \<not> list_all (\<lambda>k. k = 0)
       (v_scale 0.5 (K_sum_axis1
          (t_sub (t_sub_scalar (t_add (K_exp [[0, 0]]) (K_square [[1, 0]])) 1) [[0, 0]]))) \<and>
   list_all (\<lambda>k. k = 0)
       (v_scale 0.5 (K_sum_axis1
          (t_sub (t_sub_scalar (t_add (K_exp [[0, 0]]) (K_square [[0, 0]])) 1) [[0, 0]])))"
proof -
  have n0: "length (random_normal bk0 (length batch0, nat 2) 0 1) = length batch0 \<and> (1::real) \<noteq> 0"
    by (simp add: bk0_def)
  have n1: "length (random_normal bk_mean1 (length batch0, nat 2) 0 1) = length batch0 \<and> (1::real) \<noteq> 0"
    by (simp add: bk_mean1_def bk0_def)
  note t0 = beta_zero_and_kl_zero [where bk = bk0 and x = batch0 and latent_dim = 2
      and input_shape = 13 and beta = 1 and y_true = "[]" and y_pred = "[]",
      THEN conjunct2, THEN conjunct2, THEN conjunct1, rule_format, OF n0]
  note t1 = beta_zero_and_kl_zero [where bk = bk_mean1 and x = batch0 and latent_dim = 2
      and input_shape = 13 and beta = 1 and y_true = "[]" and y_pred = "[]",
      THEN conjunct2, THEN conjunct2, THEN conjunct1, rule_format, OF n1]
  from t0 t1 zero_mean_at_bk0 [of 1] nonzero_mean_at_bk_mean1 [of 1]
  have graph: "case build_single_layer_variational_autoencoder 2 13 1 of
      Inl e \<Rightarrow> False
    | Inr (autoencoder, encoder, decoder) \<Rightarrow>
        (case build_single_layer_variational_autoencoder 2 13 0 of
           Inl e \<Rightarrow> False
         | Inr (autoencoder0, encoder0, decoder0) \<Rightarrow>
             compiled_loss autoencoder bk0 [] [] = compiled_loss autoencoder0 bk0 [] [] \<and>
             compiled_loss autoencoder bk_mean1 [] [] \<noteq> compiled_loss autoencoder0 bk_mean1 [] [])"
    by (simp add: build_single_variational_result Let_def bk0_feed bk_mean1_feed)
  have "list_all2 (\<lambda>m l. length m = length l) [[1, 0]] [[0, 0::real]] \<and>
   \<not> list_all (\<lambda>k. k = 0)
       (v_scale 0.5 (K_sum_axis1
          (t_sub (t_sub_scalar (t_add (K_exp [[0, 0]]) (K_square [[1, 0]])) 1) [[0, 0]]))) \<and>
   list_all (\<lambda>k. k = 0)
       (v_scale 0.5 (K_sum_axis1
          (t_sub (t_sub_scalar (t_add (K_exp [[0, 0]]) (K_square [[0, 0]])) 1) [[0, 0]])))"
    using beta_zero_and_kl_zero [where mu = "[[1, 0]]" and log_sigma = "[[0, 0]]"]
      beta_zero_and_kl_zero [where mu = "[[0, 0]]" and log_sigma = "[[0, 0]]"]
    by simp
  with graph show ?thesis
    by blast
qed

end
